theory Spec2Isabelle
  imports Main "HOL-Library.Sublist"
begin

section \<open>The deployment orchestrator of concourse-up (\<open>concourse/deploy.go\<close>)\<close>

text \<open>
  The Go file \<open>concourse/deploy.go\<close> sequences calls to external collaborators (the
  configuration store, terraform, the BOSH deployer, the fly client, the certificate
  generator, the output streams) around a mutable \<open>*config.Config\<close>.

  The embedding is by explicit state passing.
  \<^item> The state is the \<^emph>\<open>trace\<close>: the list of collaborator calls made so far, oldest
    first, each with its arguments.
  \<^item> A collaborator is a parameter: a field of the record \<open>Client\<close> that gives the
    call's result as a function of the trace before the call and of the arguments. Every
    deterministic collaborator, stateful or not, is such a function.
  \<^item> A Go function returning \<open>(*config.Config, error)\<close> returns \<open>error + Config\<close>; a Go
    function returning \<open>error\<close> alone returns \<open>error option\<close>, or \<open>error + Config\<close> when it
    also mutates the configuration it was handed (the \<open>Inr\<close> value is the object after
    the mutation).
\<close>

subsection \<open>Data\<close>

datatype error = Error string

type_synonym Duration = int \<comment> \<open>\<open>time.Duration\<close>: nanoseconds\<close>

type_synonym Time = int

text \<open>The fields of \<open>config.DeployArgs\<close> that \<open>deploy.go\<close> reads.\<close>

record DeployArgs =
  AWSRegion :: string
  args_Domain :: string
  SelfUpdate :: bool
  DBSizeIsSet :: bool
  DBSize :: string
  TLSCert :: string
  TLSKey :: string
  WorkerCount :: int
  WorkerSize :: string
  WebSize :: string

text \<open>The fields of \<open>config.Config\<close> that \<open>deploy.go\<close> reads or writes.\<close>

record Config =
  Deployment :: string
  Project :: string
  Region :: string
  conf_Domain :: string
  SourceAccessIP :: string
  HostedZoneID :: string
  HostedZoneRecordPrefix :: string
  RDSInstanceClass :: string
  ConcourseUsername :: string
  ConcoursePassword :: string
  ConcourseWorkerCount :: int
  ConcourseWorkerSize :: string
  ConcourseWebSize :: string
  DirectorPublicIP :: string
  DirectorCACert :: string
  DirectorCert :: string
  DirectorKey :: string
  ConcourseCert :: string
  ConcourseKey :: string
  ConcourseCACert :: string
  ConcourseUserProvidedCert :: bool
  CredhubCACert :: string
  CredhubPassword :: string
  CredhubURL :: string
  CredhubUsername :: string

text \<open>\<open>terraform.Metadata\<close>: the \<open>.Value\<close> of the two outputs that are read.\<close>

record Metadata =
  ATCPublicIP_Value :: string
  DirectorPublicIP_Value :: string

text \<open>What the certificate generator returns.\<close>

record Certs =
  CACert :: string
  Cert :: string
  Key :: string

text \<open>\<open>x509.Certificate\<close>: the one field that is read.\<close>

record Certificate =
  NotAfter :: Time

text \<open>The local struct \<open>credhubCreds\<close> of \<open>deployBosh\<close>.\<close>

record credhubCreds =
  cc_Password :: string
  cc_CACert_Cert :: string

text \<open>\<open>fly.Credentials\<close>.\<close>

record Credentials =
  Target :: string
  API :: string
  Username :: string
  Password :: string

subsection \<open>Collaborator calls and the trace\<close>

datatype event =
    EvLoadOrCreate DeployArgs
  | EvUpdate Config
  | EvHasAsset string
  | EvLoadAsset string
  | EvStoreAsset string string
  | EvStdout string
  | EvStderr string
  | EvFindUserIP
  | EvFindLongestMatchingHostedZone string
  | EvCertGenerator string "string list"
  | EvTerraformClientFactory Config
  | EvTerraformApply bool
  | EvTerraformOutput
  | EvTerraformCleanup
  | EvFlyClientFactory Credentials
  | EvCanConnect
  | EvSetDefaultPipeline DeployArgs Config bool
  | EvFlyCleanup
  | EvBuildBoshClient Config Metadata
  | EvBoshDeploy string string bool
  | EvBoshCleanup

type_synonym trace = "event list"

text \<open>
  The receiver \<open>*Client\<close>: its deploy arguments, and what each collaborator answers.
  The last group are functions and constants of other packages that \<open>deploy.go\<close> uses
  and that are not part of this file: the PEM decoder, the X.509 parser, the clock
  (\<open>time.Until\<close>), the YAML decoder, \<open>metadata.AssertValid\<close>, the table
  \<open>config.DBSizes\<close> and the two asset names of package \<open>bosh\<close>.
\<close>

record Client =
  deployArgs :: DeployArgs
  env_LoadOrCreate :: "trace \<Rightarrow> DeployArgs \<Rightarrow> error + (Config \<times> bool)"
  env_Update :: "trace \<Rightarrow> Config \<Rightarrow> error option"
  env_HasAsset :: "trace \<Rightarrow> string \<Rightarrow> error + bool"
  env_LoadAsset :: "trace \<Rightarrow> string \<Rightarrow> error + string"
  env_StoreAsset :: "trace \<Rightarrow> string \<Rightarrow> string \<Rightarrow> error option"
  env_stdout :: "trace \<Rightarrow> string \<Rightarrow> error option"
  env_stderr :: "trace \<Rightarrow> string \<Rightarrow> error option"
  env_FindUserIP :: "trace \<Rightarrow> error + string"
  env_FindLongestMatchingHostedZone :: "trace \<Rightarrow> string \<Rightarrow> error + (string \<times> string)"
  env_certGenerator :: "trace \<Rightarrow> string \<Rightarrow> string list \<Rightarrow> error + Certs"
  env_terraformClientFactory :: "trace \<Rightarrow> Config \<Rightarrow> error option"
  env_Apply :: "trace \<Rightarrow> bool \<Rightarrow> error option"
  env_Output :: "trace \<Rightarrow> error + Metadata"
  env_flyClientFactory :: "trace \<Rightarrow> Credentials \<Rightarrow> error option"
  env_CanConnect :: "trace \<Rightarrow> error + bool"
  env_SetDefaultPipeline :: "trace \<Rightarrow> DeployArgs \<Rightarrow> Config \<Rightarrow> bool \<Rightarrow> error option"
  env_buildBoshClient :: "trace \<Rightarrow> Config \<Rightarrow> Metadata \<Rightarrow> error option"
  env_boshDeploy :: "trace \<Rightarrow> string \<Rightarrow> string \<Rightarrow> bool \<Rightarrow> string \<times> string \<times> error option"
  pem_Decode :: "string \<Rightarrow> string option"
  x509_ParseCertificate :: "string \<Rightarrow> error + Certificate"
  time_Until :: "trace \<Rightarrow> Time \<Rightarrow> Duration"
  yaml_Unmarshal :: "string \<Rightarrow> error + credhubCreds"
  AssertValid :: "Metadata \<Rightarrow> error option"
  config_DBSizes :: "string \<Rightarrow> string"
  bosh_StateFilename :: string
  bosh_CredsFilename :: string

text \<open>
  Each call appends its event to the trace and returns the collaborator's answer. The
  factories also receive the output streams, and the terraform factory the name
  \<open>client.iaasClient.IAAS()\<close>; these do not vary within a run and are not recorded. A
  collaborator that is handed the \<open>*config.Config\<close> is taken not to write to it.
\<close>

definition configClient_LoadOrCreate ::
  "Client \<Rightarrow> DeployArgs \<Rightarrow> trace \<Rightarrow> (error + (Config \<times> bool)) \<times> trace" where
  "configClient_LoadOrCreate client args tr =
     (env_LoadOrCreate client tr args, tr @ [EvLoadOrCreate args])"

definition configClient_Update :: "Client \<Rightarrow> Config \<Rightarrow> trace \<Rightarrow> error option \<times> trace" where
  "configClient_Update client config tr = (env_Update client tr config, tr @ [EvUpdate config])"

definition configClient_HasAsset :: "Client \<Rightarrow> string \<Rightarrow> trace \<Rightarrow> (error + bool) \<times> trace" where
  "configClient_HasAsset client name tr = (env_HasAsset client tr name, tr @ [EvHasAsset name])"

definition configClient_LoadAsset :: "Client \<Rightarrow> string \<Rightarrow> trace \<Rightarrow> (error + string) \<times> trace" where
  "configClient_LoadAsset client name tr = (env_LoadAsset client tr name, tr @ [EvLoadAsset name])"

definition configClient_StoreAsset ::
  "Client \<Rightarrow> string \<Rightarrow> string \<Rightarrow> trace \<Rightarrow> error option \<times> trace" where
  "configClient_StoreAsset client name bytes tr =
     (env_StoreAsset client tr name bytes, tr @ [EvStoreAsset name bytes])"

definition stdout_Write :: "Client \<Rightarrow> string \<Rightarrow> trace \<Rightarrow> error option \<times> trace" where
  "stdout_Write client s tr = (env_stdout client tr s, tr @ [EvStdout s])"

definition stderr_Write :: "Client \<Rightarrow> string \<Rightarrow> trace \<Rightarrow> error option \<times> trace" where
  "stderr_Write client s tr = (env_stderr client tr s, tr @ [EvStderr s])"

definition util_FindUserIP :: "Client \<Rightarrow> trace \<Rightarrow> (error + string) \<times> trace" where
  "util_FindUserIP client tr = (env_FindUserIP client tr, tr @ [EvFindUserIP])"

definition iaasClient_FindLongestMatchingHostedZone ::
  "Client \<Rightarrow> string \<Rightarrow> trace \<Rightarrow> (error + (string \<times> string)) \<times> trace" where
  "iaasClient_FindLongestMatchingHostedZone client domain tr =
     (env_FindLongestMatchingHostedZone client tr domain,
      tr @ [EvFindLongestMatchingHostedZone domain])"

definition certGenerator ::
  "Client \<Rightarrow> string \<Rightarrow> string list \<Rightarrow> trace \<Rightarrow> (error + Certs) \<times> trace" where
  "certGenerator client name subjects tr =
     (env_certGenerator client tr name subjects, tr @ [EvCertGenerator name subjects])"

definition terraformClientFactory :: "Client \<Rightarrow> Config \<Rightarrow> trace \<Rightarrow> error option \<times> trace" where
  "terraformClientFactory client config tr =
     (env_terraformClientFactory client tr config, tr @ [EvTerraformClientFactory config])"

definition terraformClient_Apply :: "Client \<Rightarrow> bool \<Rightarrow> trace \<Rightarrow> error option \<times> trace" where
  "terraformClient_Apply client flag tr = (env_Apply client tr flag, tr @ [EvTerraformApply flag])"

definition terraformClient_Output :: "Client \<Rightarrow> trace \<Rightarrow> (error + Metadata) \<times> trace" where
  "terraformClient_Output client tr = (env_Output client tr, tr @ [EvTerraformOutput])"

definition flyClientFactory :: "Client \<Rightarrow> Credentials \<Rightarrow> trace \<Rightarrow> error option \<times> trace" where
  "flyClientFactory client creds tr =
     (env_flyClientFactory client tr creds, tr @ [EvFlyClientFactory creds])"

definition flyClient_CanConnect :: "Client \<Rightarrow> trace \<Rightarrow> (error + bool) \<times> trace" where
  "flyClient_CanConnect client tr = (env_CanConnect client tr, tr @ [EvCanConnect])"

definition flyClient_SetDefaultPipeline ::
  "Client \<Rightarrow> DeployArgs \<Rightarrow> Config \<Rightarrow> bool \<Rightarrow> trace \<Rightarrow> error option \<times> trace" where
  "flyClient_SetDefaultPipeline client args config allowFlyVersionDiscrepancy tr =
     (env_SetDefaultPipeline client tr args config allowFlyVersionDiscrepancy,
      tr @ [EvSetDefaultPipeline args config allowFlyVersionDiscrepancy])"

definition buildBoshClient :: "Client \<Rightarrow> Config \<Rightarrow> Metadata \<Rightarrow> trace \<Rightarrow> error option \<times> trace" where
  "buildBoshClient client config metadata tr =
     (env_buildBoshClient client tr config metadata, tr @ [EvBuildBoshClient config metadata])"

definition boshClient_Deploy ::
  "Client \<Rightarrow> string \<Rightarrow> string \<Rightarrow> bool \<Rightarrow> trace \<Rightarrow> (string \<times> string \<times> error option) \<times> trace" where
  "boshClient_Deploy client state creds detach tr =
     (env_boshDeploy client tr state creds detach, tr @ [EvBoshDeploy state creds detach])"

text \<open>
  A deferred \<open>Cleanup()\<close> runs when the enclosing function returns, after the returned
  value is computed; its own result is dropped.
\<close>

definition defer_Cleanup :: "event \<Rightarrow> 'a \<times> trace \<Rightarrow> 'a \<times> trace" where
  "defer_Cleanup ev r = (fst r, snd r @ [ev])"

subsection \<open>The certificate lifecycle\<close>

text \<open>
  \<open>func timeTillExpiry(cert string) time.Duration\<close> (lines 198-208). It reads the clock
  through \<open>time.Until\<close>, so the model takes the trace, which stands for the instant of
  the call.
\<close>

definition timeTillExpiry :: "Client \<Rightarrow> trace \<Rightarrow> string \<Rightarrow> Duration" where
  "timeTillExpiry client tr cert =
     (case pem_Decode client cert of
        None \<Rightarrow> 0
      | Some block \<Rightarrow>
          (case x509_ParseCertificate client block of
             Inl err \<Rightarrow> 0
           | Inr c \<Rightarrow> time_Until client tr (NotAfter c)))"

text \<open>\<open>time.Hour\<close> and the renewal threshold \<open>28*24*time.Hour\<close>, in nanoseconds.\<close>

definition time_Hour :: Duration where
  "time_Hour = 3600 * 1000000000"

text \<open>\<open>ensureDirectorCerts\<close>, lines 172-196.\<close>

definition ensureDirectorCerts ::
  "Client \<Rightarrow> Config \<Rightarrow> Metadata \<Rightarrow> trace \<Rightarrow> (error + Config) \<times> trace" where
  "ensureDirectorCerts client config metadata tr =
     (if DirectorCACert config \<noteq> [] then (Inr config, tr)
      else
        let ip = DirectorPublicIP_Value metadata in
        (case stdout_Write client
                (''\<newline>GENERATING BOSH DIRECTOR CERTIFICATE ('' @ ip @ '', 10.0.0.6)\<newline>'') tr of
           (Some err, tr1) \<Rightarrow> (Inl err, tr1)
         | (None, tr1) \<Rightarrow>
             (case certGenerator client (Deployment config) [ip, ''10.0.0.6''] tr1 of
                (Inl err, tr2) \<Rightarrow> (Inl err, tr2)
              | (Inr directorCerts, tr2) \<Rightarrow>
                  (Inr (config\<lparr>DirectorCACert := CACert directorCerts,
                               DirectorCert := Cert directorCerts,
                               DirectorKey := Key directorCerts\<rparr>), tr2))))"

text \<open>\<open>ensureConcourseCerts\<close>, lines 210-236.\<close>

definition ensureConcourseCerts ::
  "Client \<Rightarrow> bool \<Rightarrow> Config \<Rightarrow> Metadata \<Rightarrow> trace \<Rightarrow> (error + Config) \<times> trace" where
  "ensureConcourseCerts client domainUpdated config metadata tr =
     (if TLSCert (deployArgs client) \<noteq> [] then
        (Inr (config\<lparr>ConcourseCert := TLSCert (deployArgs client),
                     ConcourseKey := TLSKey (deployArgs client),
                     ConcourseUserProvidedCert := True\<rparr>), tr)
      else if ConcourseCert config \<noteq> [] \<and> \<not> domainUpdated
              \<and> timeTillExpiry client tr (ConcourseCert config) > 28 * 24 * time_Hour then
        (Inr config, tr)
      else
        (case certGenerator client (Deployment config) [conf_Domain config] tr of
           (Inl err, tr1) \<Rightarrow> (Inl err, tr1)
         | (Inr concourseCerts, tr1) \<Rightarrow>
             (Inr (config\<lparr>ConcourseCert := Cert concourseCerts,
                          ConcourseKey := Key concourseCerts,
                          ConcourseCACert := CACert concourseCerts\<rparr>), tr1)))"

subsection \<open>Requirement resolution before and after provisioning\<close>

text \<open>\<open>strings.TrimSuffix\<close>: \<open>s\<close> without the trailing \<open>suf\<close>, or \<open>s\<close> itself.\<close>

definition strings_TrimSuffix :: "string \<Rightarrow> string \<Rightarrow> string" where
  "strings_TrimSuffix s suf =
     (if length suf \<le> length s \<and> drop (length s - length suf) s = suf
      then take (length s - length suf) s else s)"

text \<open>\<open>setUserIP\<close>, lines 323-342, and \<open>setHostedZone\<close>, lines 344-368.\<close>

definition setUserIP :: "Client \<Rightarrow> Config \<Rightarrow> trace \<Rightarrow> (error + Config) \<times> trace" where
  "setUserIP client config tr =
     (case util_FindUserIP client tr of
        (Inl err, tr1) \<Rightarrow> (Inl err, tr1)
      | (Inr userIP, tr1) \<Rightarrow>
          if SourceAccessIP config \<noteq> userIP then
            let config1 = config\<lparr>SourceAccessIP := userIP\<rparr> in
            (case stderr_Write client
                    (''\<newline>WARNING: allowing access from local machine (address: '' @ userIP
                       @ '')\<newline>\<newline>'') tr1 of
               (Some err, tr2) \<Rightarrow> (Inl err, tr2)
             | (None, tr2) \<Rightarrow>
                 (case configClient_Update client config1 tr2 of
                    (Some err, tr3) \<Rightarrow> (Inl err, tr3)
                  | (None, tr3) \<Rightarrow> (Inr config1, tr3)))
          else (Inr config, tr1))"

definition setHostedZone :: "Client \<Rightarrow> Config \<Rightarrow> trace \<Rightarrow> (error + Config) \<times> trace" where
  "setHostedZone client config tr =
     (let domain = args_Domain (deployArgs client) in
      if args_Domain (deployArgs client) = [] then (Inr config, tr)
      else
        (case iaasClient_FindLongestMatchingHostedZone client domain tr of
           (Inl err, tr1) \<Rightarrow> (Inl err, tr1)
         | (Inr (hostedZoneName, hostedZoneID), tr1) \<Rightarrow>
             let config1 = config\<lparr>HostedZoneID := hostedZoneID,
                                  HostedZoneRecordPrefix :=
                                    strings_TrimSuffix domain (''.'' @ hostedZoneName),
                                  conf_Domain := domain\<rparr> in
             (case stderr_Write client
                     (''\<newline>WARNING: adding record '' @ domain @ '' to Route53 hosted zone ''
                        @ hostedZoneName @ '' ID: '' @ hostedZoneID @ ''\<newline>\<newline>'') tr1 of
                (Some err, tr2) \<Rightarrow> (Inl err, tr2)
              | (None, tr2) \<Rightarrow>
                  (case configClient_Update client config1 tr2 of
                     (Some err, tr3) \<Rightarrow> (Inl err, tr3)
                   | (None, tr3) \<Rightarrow> (Inr config1, tr3)))))"

text \<open>
  \<open>checkPreTerraformConfigRequirements\<close>, lines 115-143. First the message of its region
  check, \<open>fmt.Errorf\<close> with two \<open>%s\<close>.
\<close>

definition region_error :: "string \<Rightarrow> string \<Rightarrow> error" where
  "region_error stored requested =
     Error (''found previous deployment in '' @ stored @ ''. Refusing to deploy to '' @ requested
            @ '' as changing regions for existing deployments is not supported'')"

definition checkPreTerraformConfigRequirements ::
  "Client \<Rightarrow> Config \<Rightarrow> trace \<Rightarrow> (error + Config) \<times> trace" where
  "checkPreTerraformConfigRequirements client conf tr =
     (let region = AWSRegion (deployArgs client) in
      if Region conf \<noteq> [] \<and> Region conf \<noteq> region then
        (Inl (region_error (Region conf) region), tr)
      else
        let conf1 = conf\<lparr>Region := region\<rparr>;
            conf2 = (if DBSizeIsSet (deployArgs client)
                     then conf1\<lparr>RDSInstanceClass :=
                                   config_DBSizes client (DBSize (deployArgs client))\<rparr>
                     else conf1)
        in
        (case (if \<not> SelfUpdate (deployArgs client) then setUserIP client conf2 tr
               else (Inr conf2, tr)) of
           (Inl err, tr1) \<Rightarrow> (Inl err, tr1)
         | (Inr conf3, tr1) \<Rightarrow>
             (case setHostedZone client conf3 tr1 of
                (Inl err, tr2) \<Rightarrow> (Inl err, tr2)
              | (Inr conf4, tr2) \<Rightarrow> (Inr conf4, tr2))))"

text \<open>\<open>checkPreDeployConfigRequiments\<close>, lines 145-170.\<close>

definition checkPreDeployConfigRequiments ::
  "Client \<Rightarrow> bool \<Rightarrow> Config \<Rightarrow> Metadata \<Rightarrow> trace \<Rightarrow> (error + Config) \<times> trace" where
  "checkPreDeployConfigRequiments client isDomainUpdated config metadata tr =
     (let config1 = (if args_Domain (deployArgs client) = []
                     then config\<lparr>conf_Domain := ATCPublicIP_Value metadata\<rparr>
                     else config) in
      case ensureDirectorCerts client config1 metadata tr of
        (Inl err, tr1) \<Rightarrow> (Inl err, tr1)
      | (Inr config2, tr1) \<Rightarrow>
          (case ensureConcourseCerts client isDomainUpdated config2 metadata tr1 of
             (Inl err, tr2) \<Rightarrow> (Inl err, tr2)
           | (Inr config3, tr2) \<Rightarrow>
               let config4 = config3\<lparr>ConcourseWorkerCount := WorkerCount (deployArgs client),
                                     ConcourseWorkerSize := WorkerSize (deployArgs client),
                                     ConcourseWebSize := WebSize (deployArgs client),
                                     DirectorPublicIP := DirectorPublicIP_Value metadata\<rparr> in
               (case configClient_Update client config4 tr2 of
                  (Some err, tr3) \<Rightarrow> (Inl err, tr3)
                | (None, tr3) \<Rightarrow> (Inr config4, tr3))))"

subsection \<open>Provisioning\<close>

text \<open>\<open>applyTerraform\<close>, lines 238-259.\<close>

definition applyTerraform :: "Client \<Rightarrow> Config \<Rightarrow> trace \<Rightarrow> (error + Metadata) \<times> trace" where
  "applyTerraform client config tr =
     (case terraformClientFactory client config tr of
        (Some err, tr1) \<Rightarrow> (Inl err, tr1)
      | (None, tr1) \<Rightarrow>
          defer_Cleanup EvTerraformCleanup
            (case terraformClient_Apply client False tr1 of
               (Some err, tr2) \<Rightarrow> (Inl err, tr2)
             | (None, tr2) \<Rightarrow>
                 (case terraformClient_Output client tr2 of
                    (Inl err, tr3) \<Rightarrow> (Inl err, tr3)
                  | (Inr metadata, tr3) \<Rightarrow>
                      (case AssertValid client metadata of
                         Some err \<Rightarrow> (Inl err, tr3)
                       | None \<Rightarrow> (Inr metadata, tr3)))))"

subsection \<open>The configuration-management deploy\<close>

text \<open>\<open>loadDirectorState\<close> and \<open>loadDirectorCreds\<close>, lines 390-413; a nil byte slice is the
  empty text.\<close>

definition loadDirectorState :: "Client \<Rightarrow> trace \<Rightarrow> (error + string) \<times> trace" where
  "loadDirectorState client tr =
     (case configClient_HasAsset client (bosh_StateFilename client) tr of
        (Inl err, tr1) \<Rightarrow> (Inl err, tr1)
      | (Inr hasState, tr1) \<Rightarrow>
          if \<not> hasState then (Inr [], tr1)
          else configClient_LoadAsset client (bosh_StateFilename client) tr1)"

definition loadDirectorCreds :: "Client \<Rightarrow> trace \<Rightarrow> (error + string) \<times> trace" where
  "loadDirectorCreds client tr =
     (case configClient_HasAsset client (bosh_CredsFilename client) tr of
        (Inl err, tr1) \<Rightarrow> (Inl err, tr1)
      | (Inr hasCreds, tr1) \<Rightarrow>
          if \<not> hasCreds then (Inr [], tr1)
          else configClient_LoadAsset client (bosh_CredsFilename client) tr1)"

text \<open>
  \<open>deployBosh\<close>, lines 261-307. It returns \<open>error\<close> and writes the credhub fields into
  the configuration it was handed: \<open>Inr\<close> carries that configuration. On the two paths
  that end in \<open>return nil\<close> after a failed load, it is the configuration as received.
\<close>

definition deployBosh ::
  "Client \<Rightarrow> Config \<Rightarrow> Metadata \<Rightarrow> bool \<Rightarrow> trace \<Rightarrow> (error + Config) \<times> trace" where
  "deployBosh client config metadata detach tr =
     (case buildBoshClient client config metadata tr of
        (Some err, tr1) \<Rightarrow> (Inl err, tr1)
      | (None, tr1) \<Rightarrow>
          defer_Cleanup EvBoshCleanup
            (case loadDirectorState client tr1 of
               (Inl err, tr2) \<Rightarrow> (Inr config, tr2)
             | (Inr boshStateBytes, tr2) \<Rightarrow>
                 (case loadDirectorCreds client tr2 of
                    (Inl err, tr3) \<Rightarrow> (Inr config, tr3)
                  | (Inr boshCredsBytes, tr3) \<Rightarrow>
                      (case boshClient_Deploy client boshStateBytes boshCredsBytes detach tr3 of
                         ((boshStateBytes', boshCredsBytes', err), tr4) \<Rightarrow>
                           (case configClient_StoreAsset client (bosh_StateFilename client)
                                   boshStateBytes' tr4 of
                              (err1, tr5) \<Rightarrow>
                                let err' = (if err = None then err1 else err) in
                                (case configClient_StoreAsset client (bosh_CredsFilename client)
                                        boshCredsBytes' tr5 of
                                   (err1', tr6) \<Rightarrow>
                                     let err'' = (if err' = None then err1' else err') in
                                     (case err'' of
                                        Some e \<Rightarrow> (Inl e, tr6)
                                      | None \<Rightarrow>
                                          (case yaml_Unmarshal client boshCredsBytes' of
                                             Inl e \<Rightarrow> (Inl e, tr6)
                                           | Inr cc \<Rightarrow>
                                               (Inr (config\<lparr>
                                                  CredhubCACert := cc_CACert_Cert cc,
                                                  CredhubPassword := cc_Password cc,
                                                  CredhubURL := ''https://''
                                                    @ ATCPublicIP_Value metadata @ '':8844/'',
                                                  CredhubUsername := ''credhub-cli''\<rparr>),
                                                tr6)))))))))"

subsection \<open>Messages\<close>

text \<open>
  The template \<open>deployMsg\<close> executed on the configuration; the template engine's writes
  to \<open>stdout\<close> are taken as one write of the rendered text.
\<close>

definition deployMsg :: "Config \<Rightarrow> string" where
  "deployMsg config =
     ''DEPLOY SUCCESSFUL. Log in with:\<newline>fly --target '' @ Project config @ '' login''
     @ (if \<not> ConcourseUserProvidedCert config then '' --insecure'' else [])
     @ '' --concourse-url https://'' @ conf_Domain config
     @ '' --username '' @ ConcourseUsername config
     @ '' --password '' @ ConcoursePassword config
     @ ''\<newline>\<newline>Metrics available at https://'' @ conf_Domain config
     @ '':3000 using the same username and password\<newline>\<newline>Log into credhub with:\<newline>eval ''
     @ [CHR 0x22] @ ''$(concourse-up info --env --region '' @ Region config @ '')'' @ [CHR 0x22]
     @ ''\<newline>''"

definition writeDeploySuccessMessage ::
  "Client \<Rightarrow> Config \<Rightarrow> Metadata \<Rightarrow> trace \<Rightarrow> error option \<times> trace" where
  "writeDeploySuccessMessage client config metadata tr = stdout_Write client (deployMsg config) tr"

definition writeConfigLoadedSuccessMessage :: "Client \<Rightarrow> trace \<Rightarrow> error option \<times> trace" where
  "writeConfigLoadedSuccessMessage client tr =
     stdout_Write client ''\<newline>USING PREVIOUS DEPLOYMENT CONFIG\<newline>'' tr"

subsection \<open>The orchestrator\<close>

text \<open>\<open>loadConfig\<close>, lines 309-321.\<close>

definition loadConfig :: "Client \<Rightarrow> trace \<Rightarrow> (error + Config) \<times> trace" where
  "loadConfig client tr =
     (case configClient_LoadOrCreate client (deployArgs client) tr of
        (Inl err, tr1) \<Rightarrow> (Inl err, tr1)
      | (Inr (cfg, createdNewConfig), tr1) \<Rightarrow>
          if \<not> createdNewConfig then
            (case writeConfigLoadedSuccessMessage client tr1 of
               (Some err, tr2) \<Rightarrow> (Inl err, tr2)
             | (None, tr2) \<Rightarrow> (Inr cfg, tr2))
          else (Inr cfg, tr1))"

text \<open>\<open>deployBoshAndPipeline\<close>, lines 70-86, and \<open>updateBoshAndPipeline\<close>, lines 88-113.\<close>

definition deployBoshAndPipeline ::
  "Client \<Rightarrow> Config \<Rightarrow> Metadata \<Rightarrow> trace \<Rightarrow> (error + Config) \<times> trace" where
  "deployBoshAndPipeline client config metadata tr =
     (case deployBosh client config metadata False tr of
        (Inl err, tr1) \<Rightarrow> (Inl err, tr1)
      | (Inr config1, tr1) \<Rightarrow>
          (case flyClient_SetDefaultPipeline client (deployArgs client) config1 False tr1 of
             (Some err, tr2) \<Rightarrow> (Inl err, tr2)
           | (None, tr2) \<Rightarrow>
               (case writeDeploySuccessMessage client config1 metadata tr2 of
                  (Some err, tr3) \<Rightarrow> (Inl err, tr3)
                | (None, tr3) \<Rightarrow> (Inr config1, tr3))))"

definition updateBoshAndPipeline ::
  "Client \<Rightarrow> Config \<Rightarrow> Metadata \<Rightarrow> trace \<Rightarrow> (error + Config) \<times> trace" where
  "updateBoshAndPipeline client config metadata tr =
     (case flyClient_CanConnect client tr of
        (Inl err, tr1) \<Rightarrow> (Inl err, tr1)
      | (Inr concourseAlreadyRunning, tr1) \<Rightarrow>
          if \<not> concourseAlreadyRunning then
            (Inl (Error ''In detach mode but it seems that concourse is not currently running''),
             tr1)
          else
            (case flyClient_SetDefaultPipeline client (deployArgs client) config True tr1 of
               (Some err, tr2) \<Rightarrow> (Inl err, tr2)
             | (None, tr2) \<Rightarrow>
                 (case deployBosh client config metadata True tr2 of
                    (Inl err, tr3) \<Rightarrow> (Inl err, tr3)
                  | (Inr config1, tr3) \<Rightarrow>
                      (case stdout_Write client
                              ''\<newline>UPGRADE RUNNING IN BACKGROUND\<newline>\<newline>'' tr3 of
                         (Some err, tr4) \<Rightarrow> (Inl err, tr4)
                       | (None, tr4) \<Rightarrow> (Inr config1, tr4)))))"

text \<open>\<open>Deploy\<close>, lines 23-68.\<close>

definition Deploy :: "Client \<Rightarrow> trace \<Rightarrow> error option \<times> trace" where
  "Deploy client tr =
     (case loadConfig client tr of
        (Inl err, tr1) \<Rightarrow> (Some err, tr1)
      | (Inr config, tr1) \<Rightarrow>
          let isDomainUpdated = (args_Domain (deployArgs client) \<noteq> conf_Domain config) in
          (case checkPreTerraformConfigRequirements client config tr1 of
             (Inl err, tr2) \<Rightarrow> (Some err, tr2)
           | (Inr config1, tr2) \<Rightarrow>
               (case applyTerraform client config1 tr2 of
                  (Inl err, tr3) \<Rightarrow> (Some err, tr3)
                | (Inr metadata, tr3) \<Rightarrow>
                    (case checkPreDeployConfigRequiments client isDomainUpdated config1
                            metadata tr3 of
                       (Inl err, tr4) \<Rightarrow> (Some err, tr4)
                     | (Inr config2, tr4) \<Rightarrow>
                         (case flyClientFactory client
                                 \<lparr>Target = Deployment config2,
                                  API = ''https://'' @ conf_Domain config2,
                                  Username = ConcourseUsername config2,
                                  Password = ConcoursePassword config2\<rparr> tr4 of
                            (Some err, tr5) \<Rightarrow> (Some err, tr5)
                          | (None, tr5) \<Rightarrow>
                              defer_Cleanup EvFlyCleanup
                                (case (if SelfUpdate (deployArgs client)
                                       then updateBoshAndPipeline client config2 metadata tr5
                                       else deployBoshAndPipeline client config2 metadata tr5) of
                                   (Inl err, tr6) \<Rightarrow> (Some err, tr6)
                                 | (Inr config3, tr6) \<Rightarrow>
                                     configClient_Update client config3 tr6))))))"

subsection \<open>Observations on traces\<close>

text \<open>
  The two calls whose order depends on the mode, each with its flag: the pipeline-set call
  with \<open>allowFlyVersionDiscrepancy\<close>, the BOSH deploy call with \<open>detach\<close>.
\<close>

datatype step = PipelineSet bool | DeployCall bool

primrec steps :: "trace \<Rightarrow> step list" where
  "steps [] = []"
| "steps (e # tr) =
     (case e of
        EvSetDefaultPipeline args config allow \<Rightarrow> PipelineSet allow # steps tr
      | EvBoshDeploy state creds detach \<Rightarrow> DeployCall detach # steps tr
      | _ \<Rightarrow> steps tr)"

definition is_CertGenerator :: "event \<Rightarrow> bool" where
  "is_CertGenerator e = (case e of EvCertGenerator name subjects \<Rightarrow> True | _ \<Rightarrow> False)"

text \<open>The number of calls of the certificate generator in a trace.\<close>

definition generator_calls :: "trace \<Rightarrow> nat" where
  "generator_calls tr = length (filter is_CertGenerator tr)"

text \<open>The configuration last handed to \<open>configClient.Update\<close> in a trace, if any.\<close>

primrec last_Update :: "trace \<Rightarrow> Config option" where
  "last_Update [] = None"
| "last_Update (e # tr) =
     (case last_Update tr of
        Some c \<Rightarrow> Some c
      | None \<Rightarrow> (case e of EvUpdate c \<Rightarrow> Some c | _ \<Rightarrow> None))"

text \<open>
  Repeated runs of the director certificate step: one run per element of the list (the
  metadata of that run), each on the configuration the run before left, until one fails.
\<close>

primrec director_runs ::
  "Client \<Rightarrow> Metadata list \<Rightarrow> Config \<Rightarrow> trace \<Rightarrow> (error + Config) \<times> trace" where
  "director_runs client [] config tr = (Inr config, tr)"
| "director_runs client (metadata # rest) config tr =
     (case ensureDirectorCerts client config metadata tr of
        (Inl err, tr1) \<Rightarrow> (Inl err, tr1)
      | (Inr config1, tr1) \<Rightarrow> director_runs client rest config1 tr1)"

subsection \<open>A concrete deployment, for evaluating the definitions\<close>

definition demo_args :: DeployArgs where
  "demo_args =
     \<lparr>AWSRegion = ''eu-west-1'', args_Domain = [], SelfUpdate = False, DBSizeIsSet = False,
      DBSize = [], TLSCert = [], TLSKey = [], WorkerCount = 1, WorkerSize = ''xlarge'',
      WebSize = ''small''\<rparr>"

text \<open>The configuration of a deployment that has not been deployed yet.\<close>

definition demo_new_config :: Config where
  "demo_new_config =
     \<lparr>Deployment = ''concourse-up-ci'', Project = ''ci'', Region = [], conf_Domain = [],
      SourceAccessIP = [], HostedZoneID = [], HostedZoneRecordPrefix = [],
      RDSInstanceClass = ''db.t2.small'', ConcourseUsername = ''admin'',
      ConcoursePassword = ''secret'', ConcourseWorkerCount = 0, ConcourseWorkerSize = [],
      ConcourseWebSize = [], DirectorPublicIP = [], DirectorCACert = [], DirectorCert = [],
      DirectorKey = [], ConcourseCert = [], ConcourseKey = [], ConcourseCACert = [],
      ConcourseUserProvidedCert = False, CredhubCACert = [], CredhubPassword = [],
      CredhubURL = [], CredhubUsername = []\<rparr>"

definition demo_metadata :: Metadata where
  "demo_metadata = \<lparr>ATCPublicIP_Value = ''192.0.2.10'', DirectorPublicIP_Value = ''192.0.2.20''\<rparr>"

definition demo_certs :: Certs where
  "demo_certs = \<lparr>CACert = ''GENERATED CA'', Cert = ''GENERATED CERT'', Key = ''GENERATED KEY''\<rparr>"

text \<open>
  Collaborators that all succeed. The store hands back the configuration last persisted
  (a new one when nothing was persisted yet); no asset is stored. The clock's instant
  is 0. The text \<open>NOT PEM\<close> and the empty text do not decode, the block \<open>GARBAGE\<close> does
  not parse, \<open>EXPIRING CERT\<close> is a certificate that ends after 10 days, and every other
  text is a certificate that ends after 100 days.
\<close>

definition demo_client :: Client where
  "demo_client =
     \<lparr>deployArgs = demo_args,
      env_LoadOrCreate = (\<lambda>tr args. case last_Update tr of
                                          None \<Rightarrow> Inr (demo_new_config, True)
                                        | Some c \<Rightarrow> Inr (c, False)),
      env_Update = (\<lambda>tr config. None),
      env_HasAsset = (\<lambda>tr name. Inr False),
      env_LoadAsset = (\<lambda>tr name. Inr []),
      env_StoreAsset = (\<lambda>tr name bytes. None),
      env_stdout = (\<lambda>tr s. None),
      env_stderr = (\<lambda>tr s. None),
      env_FindUserIP = (\<lambda>tr. Inr ''203.0.113.7''),
      env_FindLongestMatchingHostedZone = (\<lambda>tr domain. Inr (''example.com'', ''Z1'')),
      env_certGenerator = (\<lambda>tr name subjects. Inr demo_certs),
      env_terraformClientFactory = (\<lambda>tr config. None),
      env_Apply = (\<lambda>tr flag. None),
      env_Output = (\<lambda>tr. Inr demo_metadata),
      env_flyClientFactory = (\<lambda>tr creds. None),
      env_CanConnect = (\<lambda>tr. Inr True),
      env_SetDefaultPipeline = (\<lambda>tr args config allow. None),
      env_buildBoshClient = (\<lambda>tr config metadata. None),
      env_boshDeploy = (\<lambda>tr state creds detach. (''STATE'', ''CREDS'', None)),
      pem_Decode = (\<lambda>cert. if cert = [] \<or> cert = ''NOT PEM'' then None else Some cert),
      x509_ParseCertificate =
        (\<lambda>block. if block = ''GARBAGE'' then Inl (Error ''x509: malformed certificate'')
                 else if block = ''EXPIRING CERT'' then Inr \<lparr>NotAfter = 10 * 24 * time_Hour\<rparr>
                 else Inr \<lparr>NotAfter = 100 * 24 * time_Hour\<rparr>),
      time_Until = (\<lambda>tr t. t - 0),
      yaml_Unmarshal = (\<lambda>bytes. Inr \<lparr>cc_Password = ''pw'', cc_CACert_Cert = ''CREDHUB CA''\<rparr>),
      AssertValid = (\<lambda>metadata. None),
      config_DBSizes = (\<lambda>size. ''db.t2.small''),
      bosh_StateFilename = ''director-state.json'',
      bosh_CredsFilename = ''director-creds.yml''\<rparr>"

text \<open>A stored configuration whose application certificate the user supplied.\<close>

definition demo_user_config :: Config where
  "demo_user_config =
     demo_new_config\<lparr>Region := ''eu-west-1'', conf_Domain := ''ci.example.com'',
       DirectorCACert := ''DIRECTOR CA'', DirectorCert := ''DIRECTOR CERT'',
       DirectorKey := ''DIRECTOR KEY'', ConcourseCert := ''USER CERT'',
       ConcourseKey := ''USER KEY'', ConcourseUserProvidedCert := True\<rparr>"

text \<open>The same deployment in self-update mode; with an unreachable service; with a store whose
  asset queries fail (in fresh and in self-update mode); with a failing deploy call and
  failing asset writes.\<close>

definition demo_selfupdate_client :: Client where
  "demo_selfupdate_client = demo_client\<lparr>deployArgs := demo_args\<lparr>SelfUpdate := True\<rparr>\<rparr>"

definition demo_unreachable_client :: Client where
  "demo_unreachable_client = demo_selfupdate_client\<lparr>env_CanConnect := (\<lambda>tr. Inr False)\<rparr>"

definition demo_load_error_client :: Client where
  "demo_load_error_client =
     demo_client\<lparr>env_HasAsset := (\<lambda>tr name. Inl (Error ''storage unavailable''))\<rparr>"

definition demo_selfupdate_load_error_client :: Client where
  "demo_selfupdate_load_error_client =
     demo_selfupdate_client\<lparr>env_HasAsset := (\<lambda>tr name. Inl (Error ''storage unavailable''))\<rparr>"

definition demo_failing_deploy_client :: Client where
  "demo_failing_deploy_client =
     demo_client\<lparr>env_boshDeploy :=
                   (\<lambda>tr state creds detach. (''STATE'', ''CREDS'', Some (Error ''deploy failed''))),
                 env_StoreAsset := (\<lambda>tr name bytes. Some (Error ''store failed''))\<rparr>"

text \<open>The configuration that the first run of \<open>demo_client\<close> persists last.\<close>

definition demo_stored :: Config where
  "demo_stored =
     \<lparr>Deployment = ''concourse-up-ci'', Project = ''ci'', Region = ''eu-west-1'',
      conf_Domain = ''192.0.2.10'', SourceAccessIP = ''203.0.113.7'', HostedZoneID = [],
      HostedZoneRecordPrefix = [], RDSInstanceClass = ''db.t2.small'',
      ConcourseUsername = ''admin'', ConcoursePassword = ''secret'', ConcourseWorkerCount = 1,
      ConcourseWorkerSize = ''xlarge'', ConcourseWebSize = ''small'',
      DirectorPublicIP = ''192.0.2.20'', DirectorCACert = ''GENERATED CA'',
      DirectorCert = ''GENERATED CERT'', DirectorKey = ''GENERATED KEY'',
      ConcourseCert = ''GENERATED CERT'', ConcourseKey = ''GENERATED KEY'',
      ConcourseCACert = ''GENERATED CA'', ConcourseUserProvidedCert = False,
      CredhubCACert = ''CREDHUB CA'', CredhubPassword = ''pw'',
      CredhubURL = ''https://192.0.2.10:8844/'', CredhubUsername = ''credhub-cli''\<rparr>"

section \<open>Properties\<close>

lemmas demo_defs = demo_client_def demo_args_def demo_new_config_def demo_metadata_def
  demo_certs_def demo_user_config_def

lemmas demo_defs2 = demo_defs demo_selfupdate_client_def demo_unreachable_client_def
  demo_load_error_client_def demo_selfupdate_load_error_client_def
  demo_failing_deploy_client_def

lemmas call_defs = configClient_LoadOrCreate_def configClient_Update_def configClient_HasAsset_def
  configClient_LoadAsset_def configClient_StoreAsset_def stdout_Write_def stderr_Write_def
  util_FindUserIP_def iaasClient_FindLongestMatchingHostedZone_def certGenerator_def
  terraformClientFactory_def terraformClient_Apply_def terraformClient_Output_def
  flyClientFactory_def flyClient_CanConnect_def flyClient_SetDefaultPipeline_def
  buildBoshClient_def boshClient_Deploy_def defer_Cleanup_def

lemmas fun_defs = loadConfig_def writeConfigLoadedSuccessMessage_def
  checkPreTerraformConfigRequirements_def setUserIP_def setHostedZone_def
  applyTerraform_def checkPreDeployConfigRequiments_def ensureDirectorCerts_def
  ensureConcourseCerts_def timeTillExpiry_def deployBosh_def loadDirectorState_def
  loadDirectorCreds_def deployBoshAndPipeline_def updateBoshAndPipeline_def
  writeDeploySuccessMessage_def Deploy_def

subsection \<open>The director certificate bundle\<close>

lemma ensureDirectorCerts_present:
  "DirectorCACert config \<noteq> [] \<Longrightarrow>
   ensureDirectorCerts client config metadata tr = (Inr config, tr)"
  by (simp add: ensureDirectorCerts_def)

lemma director_runs_present:
  "DirectorCACert config \<noteq> [] \<Longrightarrow> director_runs client mds config tr = (Inr config, tr)"
  by (induction mds) (simp_all add: ensureDirectorCerts_present)

lemma ensureDirectorCerts_calls:
  "generator_calls (snd (ensureDirectorCerts client config metadata tr)) \<le> generator_calls tr + 1"
  by (simp add: ensureDirectorCerts_def stdout_Write_def certGenerator_def Let_def
      generator_calls_def is_CertGenerator_def split: sum.splits option.splits)

text \<open>A run that generates stores the CA certificate the generator returned.\<close>

lemma ensureDirectorCerts_absent:
  "DirectorCACert config = [] \<Longrightarrow>
   ensureDirectorCerts client config metadata tr = (Inr config1, tr1) \<Longrightarrow>
   \<exists>t n s certs. env_certGenerator client t n s = Inr certs
     \<and> DirectorCACert config1 = CACert certs"
  by (fastforce simp add: ensureDirectorCerts_def stdout_Write_def certGenerator_def Let_def
       split: sum.splits option.splits)

lemma director_runs_calls:
  assumes gen: "\<And>t n s certs. env_certGenerator client t n s = Inr certs \<Longrightarrow> CACert certs \<noteq> []"
  shows "generator_calls (snd (director_runs client mds config tr)) \<le> generator_calls tr + 1"
proof (cases "DirectorCACert config = []")
  case False
  then show ?thesis by (simp add: director_runs_present)
next
  case True
  show ?thesis
  proof (cases mds)
    case Nil
    then show ?thesis by simp
  next
    case (Cons md rest)
    obtain r tr1 where run: "ensureDirectorCerts client config md tr = (r, tr1)"
      by (cases "ensureDirectorCerts client config md tr")
    have le: "generator_calls tr1 \<le> generator_calls tr + 1"
      using ensureDirectorCerts_calls [of client config md tr] run by simp
    show ?thesis
    proof (cases r)
      case (Inl err)
      with run le Cons show ?thesis by simp
    next
      case (Inr config1)
      from ensureDirectorCerts_absent [OF True] run Inr
      obtain t n s certs where "env_certGenerator client t n s = Inr certs"
        and "DirectorCACert config1 = CACert certs"
        by blast
      with gen have "DirectorCACert config1 \<noteq> []" by simp
      with run Inr le Cons show ?thesis by (simp add: director_runs_present)
    qed
  qed
qed

text \<open>
  C6. In a run in which the stored director CA certificate is non-empty, the director
  certificate step returns the configuration as it was (so CA certificate, certificate and
  key are unchanged) and calls no collaborator: the trace is unchanged, the generator is
  not called. Hence any number of successive runs from such a configuration leave it
  unchanged without one call of the generator; and, from any configuration, successive
  runs call the generator at most once when every bundle it issues has a non-empty CA
  certificate (the stored CA certificate is then non-empty from the first generation on).
\<close>

theorem C6_director_certs_generated_once:
  "(DirectorCACert config \<noteq> [] \<longrightarrow>
      ensureDirectorCerts client config metadata tr = (Inr config, tr)
      \<and> director_runs client mds config tr = (Inr config, tr))
   \<and> ((\<forall>t n s certs. env_certGenerator client t n s = Inr certs \<longrightarrow> CACert certs \<noteq> []) \<longrightarrow>
      generator_calls (snd (director_runs client mds config0 tr)) \<le> generator_calls tr + 1)"
  using ensureDirectorCerts_present director_runs_present director_runs_calls by blast

theorem C6_witness:
  "DirectorCACert demo_user_config \<noteq> []
   \<and> ensureDirectorCerts demo_client demo_user_config demo_metadata [] = (Inr demo_user_config, [])
   \<and> director_runs demo_client [demo_metadata, demo_metadata] demo_user_config []
       = (Inr demo_user_config, [])
   \<and> generator_calls (snd (director_runs demo_client [demo_metadata, demo_metadata]
                               demo_new_config [])) \<le> 1"
  using C6_director_certs_generated_once
          [of demo_user_config demo_client demo_metadata "[]" "[demo_metadata, demo_metadata]"
              demo_new_config]
  by (simp add: demo_defs generator_calls_def)

subsection \<open>The application certificate bundle\<close>

lemma ensureConcourseCerts_kept:
  assumes "TLSCert (deployArgs client) = []" and "ConcourseCert config \<noteq> []"
    and "\<not> domainUpdated"
    and "timeTillExpiry client tr (ConcourseCert config) > 28 * 24 * time_Hour"
  shows "ensureConcourseCerts client domainUpdated config metadata tr = (Inr config, tr)"
  using assms by (simp add: ensureConcourseCerts_def)

lemma ensureConcourseCerts_generated:
  assumes "TLSCert (deployArgs client) = []"
    and "ConcourseCert config = [] \<or> domainUpdated
         \<or> timeTillExpiry client tr (ConcourseCert config) \<le> 28 * 24 * time_Hour"
  shows "ensureConcourseCerts client domainUpdated config metadata tr =
           (case env_certGenerator client tr (Deployment config) [conf_Domain config] of
              Inl err \<Rightarrow> Inl err
            | Inr concourseCerts \<Rightarrow>
                Inr (config\<lparr>ConcourseCert := Cert concourseCerts,
                            ConcourseKey := Key concourseCerts,
                            ConcourseCACert := CACert concourseCerts\<rparr>),
            tr @ [EvCertGenerator (Deployment config) [conf_Domain config]])"
  using assms
  by (auto simp add: ensureConcourseCerts_def certGenerator_def split: sum.splits)

text \<open>
  C7. In a run with no TLS certificate in the deploy arguments: when the stored
  application certificate is non-empty, the domain is unchanged this run and the
  certificate's remaining validity exceeds 28 days, the step returns the configuration as
  it was and the trace is unchanged (the generator is not called). In every other case
  (an empty stored certificate, a changed domain, or a validity of at most 28 days) the
  generator is called, once, for the deployment and its domain; when it returns a bundle,
  certificate, key and CA certificate of the configuration are replaced by it, and when
  it fails the step fails with its error.
\<close>

theorem C7_application_certs_renewal:
  assumes "TLSCert (deployArgs client) = []"
  shows "(ConcourseCert config \<noteq> [] \<and> \<not> domainUpdated
           \<and> timeTillExpiry client tr (ConcourseCert config) > 28 * 24 * time_Hour
          \<longrightarrow> ensureConcourseCerts client domainUpdated config metadata tr = (Inr config, tr))
       \<and> (ConcourseCert config = [] \<or> domainUpdated
           \<or> timeTillExpiry client tr (ConcourseCert config) \<le> 28 * 24 * time_Hour
          \<longrightarrow> ensureConcourseCerts client domainUpdated config metadata tr =
                (case env_certGenerator client tr (Deployment config) [conf_Domain config] of
                   Inl err \<Rightarrow> Inl err
                 | Inr concourseCerts \<Rightarrow>
                     Inr (config\<lparr>ConcourseCert := Cert concourseCerts,
                                 ConcourseKey := Key concourseCerts,
                                 ConcourseCACert := CACert concourseCerts\<rparr>),
                 tr @ [EvCertGenerator (Deployment config) [conf_Domain config]]))"
  using assms ensureConcourseCerts_kept ensureConcourseCerts_generated by blast

theorem C7_witness:
  "TLSCert (deployArgs demo_client) = []
   \<and> ConcourseCert demo_user_config \<noteq> []
   \<and> timeTillExpiry demo_client [] (ConcourseCert demo_user_config) > 28 * 24 * time_Hour
   \<and> ensureConcourseCerts demo_client False demo_user_config demo_metadata []
       = (Inr demo_user_config, [])
   \<and> timeTillExpiry demo_client [] ''EXPIRING CERT'' \<le> 28 * 24 * time_Hour
   \<and> ensureConcourseCerts demo_client False (demo_user_config\<lparr>ConcourseCert := ''EXPIRING CERT''\<rparr>)
         demo_metadata []
       = (Inr (demo_user_config\<lparr>ConcourseCert := ''GENERATED CERT'',
                 ConcourseKey := ''GENERATED KEY'', ConcourseCACert := ''GENERATED CA''\<rparr>),
          [EvCertGenerator ''concourse-up-ci'' [''ci.example.com'']])"
  using C7_application_certs_renewal [of demo_client demo_user_config False "[]" demo_metadata]
        C7_application_certs_renewal
          [of demo_client "demo_user_config\<lparr>ConcourseCert := ''EXPIRING CERT''\<rparr>" False "[]"
              demo_metadata]
  by (simp add: demo_defs timeTillExpiry_def time_Hour_def)

text \<open>
  C1, as amended. In a run with no TLS certificate in the deploy arguments and a stored
  application bundle marked user-provided, the step returns the configuration as it was
  (certificate, key and user-provided flag unchanged, no call of the generator) whenever
  the stored certificate is non-empty, the domain did not change this run and the
  certificate's remaining validity exceeds 28 days.
\<close>

theorem C1_user_bundle_kept_while_valid:
  assumes "TLSCert (deployArgs client) = []" and "ConcourseUserProvidedCert config"
    and "ConcourseCert config \<noteq> []" and "\<not> domainUpdated"
    and "timeTillExpiry client tr (ConcourseCert config) > 28 * 24 * time_Hour"
  shows "ensureConcourseCerts client domainUpdated config metadata tr = (Inr config, tr)"
  using assms by (simp add: ensureConcourseCerts_def)

theorem C1_witness:
  "TLSCert (deployArgs demo_client) = [] \<and> ConcourseUserProvidedCert demo_user_config
   \<and> ConcourseCert demo_user_config \<noteq> []
   \<and> timeTillExpiry demo_client [] (ConcourseCert demo_user_config) > 28 * 24 * time_Hour
   \<and> ensureConcourseCerts demo_client False demo_user_config demo_metadata []
       = (Inr demo_user_config, [])"
  using C1_user_bundle_kept_while_valid [of demo_client demo_user_config False "[]" demo_metadata]
  by (simp add: demo_defs timeTillExpiry_def time_Hour_def)

text \<open>
  The claim C1 as stated fails: with no TLS certificate in the deploy arguments, a stored
  bundle marked user-provided and a domain that changed this run, the generator is called
  and its certificate and key overwrite the user's; the flag stays set.
\<close>

theorem C1_counterexample:
  "TLSCert (deployArgs demo_client) = [] \<and> ConcourseUserProvidedCert demo_user_config
   \<and> ConcourseCert demo_user_config = ''USER CERT''
   \<and> ConcourseKey demo_user_config = ''USER KEY''
   \<and> ensureConcourseCerts demo_client True demo_user_config demo_metadata []
       = (Inr (demo_user_config\<lparr>ConcourseCert := ''GENERATED CERT'',
                 ConcourseKey := ''GENERATED KEY'', ConcourseCACert := ''GENERATED CA''\<rparr>),
          [EvCertGenerator ''concourse-up-ci'' [''ci.example.com'']])
   \<and> ensureConcourseCerts demo_client True demo_user_config demo_metadata []
       \<noteq> (Inr demo_user_config, [])"
  by (simp add: demo_defs ensureConcourseCerts_def certGenerator_def)

text \<open>
  C10. \<open>timeTillExpiry\<close> is a total function into durations, with no error result. It
  returns 0 when the text does not decode as PEM and when the decoded block does not
  parse as a certificate; for a certificate it returns \<open>time.Until\<close> of the
  certificate's \<open>NotAfter\<close>, the library's duration from the current instant to that
  time. A stored certificate with duration 0 is regenerated: with no TLS certificate in
  the deploy arguments the generator is called.
\<close>

theorem C10_timeTillExpiry_total:
  "(pem_Decode client cert = None \<longrightarrow> timeTillExpiry client tr cert = 0)
   \<and> (\<forall>block err. pem_Decode client cert = Some block
          \<and> x509_ParseCertificate client block = Inl err \<longrightarrow> timeTillExpiry client tr cert = 0)
   \<and> (\<forall>block c. pem_Decode client cert = Some block
          \<and> x509_ParseCertificate client block = Inr c
          \<longrightarrow> timeTillExpiry client tr cert = time_Until client tr (NotAfter c))
   \<and> (TLSCert (deployArgs client) = [] \<and> timeTillExpiry client tr (ConcourseCert config) = 0
        \<longrightarrow> snd (ensureConcourseCerts client domainUpdated config metadata tr)
            = tr @ [EvCertGenerator (Deployment config) [conf_Domain config]])"
  by (auto simp add: timeTillExpiry_def ensureConcourseCerts_def certGenerator_def time_Hour_def
      split: sum.splits)

theorem C10_witness:
  "pem_Decode demo_client ''NOT PEM'' = None \<and> timeTillExpiry demo_client [] ''NOT PEM'' = 0
   \<and> pem_Decode demo_client ''GARBAGE'' = Some ''GARBAGE''
   \<and> x509_ParseCertificate demo_client ''GARBAGE'' = Inl (Error ''x509: malformed certificate'')
   \<and> timeTillExpiry demo_client [] ''GARBAGE'' = 0
   \<and> x509_ParseCertificate demo_client ''EXPIRING CERT'' = Inr \<lparr>NotAfter = 10 * 24 * time_Hour\<rparr>
   \<and> timeTillExpiry demo_client [] ''EXPIRING CERT'' = 864000000000000
   \<and> TLSCert (deployArgs demo_client) = []
   \<and> snd (ensureConcourseCerts demo_client False (demo_user_config\<lparr>ConcourseCert := ''GARBAGE''\<rparr>)
             demo_metadata [])
       = [EvCertGenerator ''concourse-up-ci'' [''ci.example.com'']]"
  using C10_timeTillExpiry_total [of demo_client "''NOT PEM''" "[]" demo_user_config False demo_metadata]
        C10_timeTillExpiry_total
          [of demo_client "''GARBAGE''" "[]" "demo_user_config\<lparr>ConcourseCert := ''GARBAGE''\<rparr>"
              False demo_metadata]
        C10_timeTillExpiry_total [of demo_client "''EXPIRING CERT''" "[]" demo_user_config False demo_metadata]
  by (simp add: demo_defs time_Hour_def)

subsection \<open>The region check\<close>

text \<open>
  C3. When the configuration that the run loaded has a non-empty region that differs from
  the requested one, \<open>Deploy\<close> returns the error that names the stored and the requested
  region, and the run ends with the trace of the load: only the load-or-create call, and
  the message that a previous configuration is used, were made. No terraform call and no
  call of \<open>configClient.Update\<close> follows, so nothing is provisioned and the stored
  configuration, its region included, is not written.
\<close>

theorem C3_region_change_rejected:
  assumes "loadConfig client tr = (Inr conf, tr1)"
    and "Region conf \<noteq> []" and "Region conf \<noteq> AWSRegion (deployArgs client)"
  shows "Deploy client tr =
           (Some (Error (''found previous deployment in '' @ Region conf
                         @ ''. Refusing to deploy to '' @ AWSRegion (deployArgs client)
                         @ '' as changing regions for existing deployments is not supported'')),
            tr1)
         \<and> (tr1 = tr @ [EvLoadOrCreate (deployArgs client)]
            \<or> tr1 = tr @ [EvLoadOrCreate (deployArgs client),
                          EvStdout ''\<newline>USING PREVIOUS DEPLOYMENT CONFIG\<newline>''])"
  using assms
  by (auto simp add: Deploy_def checkPreTerraformConfigRequirements_def region_error_def Let_def
        loadConfig_def configClient_LoadOrCreate_def writeConfigLoadedSuccessMessage_def
        stdout_Write_def
      split: sum.splits option.splits if_splits prod.splits)

theorem C3_witness:
  "loadConfig demo_client [EvUpdate (demo_user_config\<lparr>Region := ''us-east-1''\<rparr>)]
     = (Inr (demo_user_config\<lparr>Region := ''us-east-1''\<rparr>),
        [EvUpdate (demo_user_config\<lparr>Region := ''us-east-1''\<rparr>), EvLoadOrCreate demo_args,
         EvStdout ''\<newline>USING PREVIOUS DEPLOYMENT CONFIG\<newline>''])
   \<and> AWSRegion (deployArgs demo_client) = ''eu-west-1''
   \<and> Deploy demo_client [EvUpdate (demo_user_config\<lparr>Region := ''us-east-1''\<rparr>)]
     = (Some (Error ''found previous deployment in us-east-1. Refusing to deploy to eu-west-1 as changing regions for existing deployments is not supported''),
        [EvUpdate (demo_user_config\<lparr>Region := ''us-east-1''\<rparr>), EvLoadOrCreate demo_args,
         EvStdout ''\<newline>USING PREVIOUS DEPLOYMENT CONFIG\<newline>''])"
proof -
  have l: "loadConfig demo_client [EvUpdate (demo_user_config\<lparr>Region := ''us-east-1''\<rparr>)]
     = (Inr (demo_user_config\<lparr>Region := ''us-east-1''\<rparr>),
        [EvUpdate (demo_user_config\<lparr>Region := ''us-east-1''\<rparr>), EvLoadOrCreate demo_args,
         EvStdout ''\<newline>USING PREVIOUS DEPLOYMENT CONFIG\<newline>''])"
    by (simp add: loadConfig_def configClient_LoadOrCreate_def
          writeConfigLoadedSuccessMessage_def stdout_Write_def demo_client_def)
  have r: "Region (demo_user_config\<lparr>Region := ''us-east-1''\<rparr>) \<noteq> []"
    "Region (demo_user_config\<lparr>Region := ''us-east-1''\<rparr>) \<noteq> AWSRegion (deployArgs demo_client)"
    by (simp_all add: demo_defs)
  from C3_region_change_rejected [OF l r] l show ?thesis by (simp add: demo_client_def demo_args_def)
qed

subsection \<open>Persistence after the deploy call\<close>

text \<open>
  C5. Once the BOSH client is built and both prior blobs are loaded, \<open>deployBosh\<close> calls
  the deployer and then always stores both blobs it returned, first the state and then
  the credentials, whatever the deploy call and the first store returned. The error it
  returns is the first one present among the deploy error, the error of storing the state
  and the error of storing the credentials; when there is none it goes on to decode the
  credentials.
\<close>

theorem C5_best_effort_persistence:
  assumes "buildBoshClient client config metadata tr = (None, tr1)"
    and "loadDirectorState client tr1 = (Inr boshStateBytes, tr2)"
    and "loadDirectorCreds client tr2 = (Inr boshCredsBytes, tr3)"
    and "env_boshDeploy client tr3 boshStateBytes boshCredsBytes detach
           = (newState, newCreds, deployErr)"
    and "env_StoreAsset client (tr3 @ [EvBoshDeploy boshStateBytes boshCredsBytes detach])
           (bosh_StateFilename client) newState = stateErr"
    and "env_StoreAsset client
           (tr3 @ [EvBoshDeploy boshStateBytes boshCredsBytes detach,
                   EvStoreAsset (bosh_StateFilename client) newState])
           (bosh_CredsFilename client) newCreds = credsErr"
  shows "snd (deployBosh client config metadata detach tr)
           = tr3 @ [EvBoshDeploy boshStateBytes boshCredsBytes detach,
                    EvStoreAsset (bosh_StateFilename client) newState,
                    EvStoreAsset (bosh_CredsFilename client) newCreds,
                    EvBoshCleanup]
         \<and> fst (deployBosh client config metadata detach tr)
           = (case deployErr of
                Some e \<Rightarrow> Inl e
              | None \<Rightarrow>
                  (case stateErr of
                     Some e \<Rightarrow> Inl e
                   | None \<Rightarrow>
                       (case credsErr of
                          Some e \<Rightarrow> Inl e
                        | None \<Rightarrow>
                            (case yaml_Unmarshal client newCreds of
                               Inl e \<Rightarrow> Inl e
                             | Inr cc \<Rightarrow>
                                 Inr (config\<lparr>CredhubCACert := cc_CACert_Cert cc,
                                        CredhubPassword := cc_Password cc,
                                        CredhubURL := ''https://'' @ ATCPublicIP_Value metadata
                                                      @ '':8844/'',
                                        CredhubUsername := ''credhub-cli''\<rparr>)))))"
  using assms
  by (simp add: deployBosh_def boshClient_Deploy_def configClient_StoreAsset_def
        defer_Cleanup_def Let_def
      split: sum.splits option.splits)

theorem C5_witness:
  "snd (deployBosh demo_failing_deploy_client demo_stored demo_metadata False [])
     = [EvBuildBoshClient demo_stored demo_metadata, EvHasAsset ''director-state.json'',
        EvHasAsset ''director-creds.yml'', EvBoshDeploy [] [] False,
        EvStoreAsset ''director-state.json'' ''STATE'',
        EvStoreAsset ''director-creds.yml'' ''CREDS'', EvBoshCleanup]
   \<and> fst (deployBosh demo_failing_deploy_client demo_stored demo_metadata False [])
     = Inl (Error ''deploy failed'')"
proof -
  let ?c = demo_failing_deploy_client
  let ?t1 = "[EvBuildBoshClient demo_stored demo_metadata]"
  let ?t2 = "?t1 @ [EvHasAsset ''director-state.json'']"
  let ?t3 = "?t2 @ [EvHasAsset ''director-creds.yml'']"
  have b: "buildBoshClient ?c demo_stored demo_metadata [] = (None, ?t1)"
    by (simp add: buildBoshClient_def demo_failing_deploy_client_def demo_client_def)
  have s: "loadDirectorState ?c ?t1 = (Inr [], ?t2)"
    by (simp add: loadDirectorState_def configClient_HasAsset_def
          demo_failing_deploy_client_def demo_client_def)
  have l: "loadDirectorCreds ?c ?t2 = (Inr [], ?t3)"
    by (simp add: loadDirectorCreds_def configClient_HasAsset_def
          demo_failing_deploy_client_def demo_client_def)
  have d: "env_boshDeploy ?c ?t3 [] [] False = (''STATE'', ''CREDS'', Some (Error ''deploy failed''))"
    by (simp add: demo_failing_deploy_client_def demo_client_def)
  from C5_best_effort_persistence [OF b s l d refl refl] show ?thesis
    by (simp add: demo_failing_deploy_client_def demo_client_def)
qed

subsection \<open>The order of the pipeline-set call and the deploy call\<close>

lemma steps_append [simp]: "steps (xs @ ys) = steps xs @ steps ys"
  by (induction xs) (simp_all split: event.splits)

lemma loadConfig_steps: "loadConfig client tr = (r, tr1) \<Longrightarrow> steps tr1 = steps tr"
  by (auto simp add: loadConfig_def configClient_LoadOrCreate_def
        writeConfigLoadedSuccessMessage_def stdout_Write_def
      split: sum.splits option.splits if_splits prod.splits)

lemma setUserIP_steps: "setUserIP client config tr = (r, tr1) \<Longrightarrow> steps tr1 = steps tr"
  by (auto simp add: setUserIP_def util_FindUserIP_def stderr_Write_def configClient_Update_def
        Let_def
      split: sum.splits option.splits if_splits prod.splits)

lemma setHostedZone_steps: "setHostedZone client config tr = (r, tr1) \<Longrightarrow> steps tr1 = steps tr"
  by (auto simp add: setHostedZone_def iaasClient_FindLongestMatchingHostedZone_def
        stderr_Write_def configClient_Update_def Let_def
      split: sum.splits option.splits if_splits prod.splits)

lemma checkPreTerraformConfigRequirements_steps:
  "checkPreTerraformConfigRequirements client config tr = (r, tr1) \<Longrightarrow> steps tr1 = steps tr"
  by (auto simp add: checkPreTerraformConfigRequirements_def Let_def
      split: sum.splits if_splits prod.splits
      dest!: setUserIP_steps setHostedZone_steps)

lemma applyTerraform_steps: "applyTerraform client config tr = (r, tr1) \<Longrightarrow> steps tr1 = steps tr"
  by (auto simp add: applyTerraform_def terraformClientFactory_def terraformClient_Apply_def
        terraformClient_Output_def defer_Cleanup_def
      split: sum.splits option.splits if_splits prod.splits)

lemma ensureDirectorCerts_steps:
  "ensureDirectorCerts client config metadata tr = (r, tr1) \<Longrightarrow> steps tr1 = steps tr"
  by (auto simp add: ensureDirectorCerts_def stdout_Write_def certGenerator_def Let_def
      split: sum.splits option.splits if_splits prod.splits)

lemma ensureConcourseCerts_steps:
  "ensureConcourseCerts client du config metadata tr = (r, tr1) \<Longrightarrow> steps tr1 = steps tr"
  by (auto simp add: ensureConcourseCerts_def certGenerator_def
      split: sum.splits option.splits if_splits prod.splits)

lemma checkPreDeployConfigRequiments_steps:
  "checkPreDeployConfigRequiments client du config metadata tr = (r, tr1) \<Longrightarrow> steps tr1 = steps tr"
  by (auto simp add: checkPreDeployConfigRequiments_def configClient_Update_def Let_def
      split: sum.splits option.splits if_splits prod.splits
      dest!: ensureDirectorCerts_steps ensureConcourseCerts_steps)

lemma loadDirectorState_steps: "loadDirectorState client tr = (r, tr1) \<Longrightarrow> steps tr1 = steps tr"
  by (auto simp add: loadDirectorState_def configClient_HasAsset_def configClient_LoadAsset_def
      split: sum.splits if_splits prod.splits)

lemma loadDirectorCreds_steps: "loadDirectorCreds client tr = (r, tr1) \<Longrightarrow> steps tr1 = steps tr"
  by (auto simp add: loadDirectorCreds_def configClient_HasAsset_def configClient_LoadAsset_def
      split: sum.splits if_splits prod.splits)

lemma deployBosh_steps:
  "deployBosh client config metadata detach tr = (r, tr1) \<Longrightarrow>
   steps tr1 = steps tr \<or> steps tr1 = steps tr @ [DeployCall detach]"
  by (auto simp add: deployBosh_def buildBoshClient_def boshClient_Deploy_def
        configClient_StoreAsset_def defer_Cleanup_def Let_def
      split: sum.splits option.splits if_splits prod.splits
      dest!: loadDirectorState_steps loadDirectorCreds_steps)

lemma updateBoshAndPipeline_steps:
  "updateBoshAndPipeline client config metadata tr = (r, tr1) \<Longrightarrow>
   steps tr1 = steps tr \<and> (\<exists>e. r = Inl e)
   \<or> steps tr1 = steps tr @ [PipelineSet True]
   \<or> steps tr1 = steps tr @ [PipelineSet True, DeployCall True]"
  by (auto simp add: updateBoshAndPipeline_def flyClient_CanConnect_def
        flyClient_SetDefaultPipeline_def stdout_Write_def
      split: sum.splits option.splits if_splits prod.splits
      dest!: deployBosh_steps)

lemma deployBoshAndPipeline_steps:
  "deployBoshAndPipeline client config metadata tr = (r, tr1) \<Longrightarrow>
   (steps tr1 = steps tr \<or> steps tr1 = steps tr @ [DeployCall False]) \<and> (\<exists>e. r = Inl e)
   \<or> steps tr1 = steps tr @ [PipelineSet False]
   \<or> steps tr1 = steps tr @ [DeployCall False, PipelineSet False]"
  by (auto simp add: deployBoshAndPipeline_def writeDeploySuccessMessage_def
        flyClient_SetDefaultPipeline_def stdout_Write_def
      split: sum.splits option.splits if_splits prod.splits
      dest!: deployBosh_steps)

lemma Deploy_cases:
  "Deploy client tr = (r, tr') \<Longrightarrow>
   steps tr' = steps tr \<and> (\<exists>e. r = Some e)
   \<or> (\<exists>config metadata t5 r6 t6.
         (if SelfUpdate (deployArgs client)
          then updateBoshAndPipeline client config metadata t5
          else deployBoshAndPipeline client config metadata t5) = (r6, t6)
         \<and> steps t5 = steps tr \<and> steps tr' = steps t6
         \<and> (r = None \<longrightarrow> (\<exists>c. r6 = Inr c)))"
proof -
  assume D: "Deploy client tr = (r, tr')"
  obtain r1 t1 where s1: "loadConfig client tr = (r1, t1)"
    by (cases "loadConfig client tr")
  have e1: "steps t1 = steps tr" using s1 by (rule loadConfig_steps)
  show ?thesis
  proof (cases r1)
    case (Inl err)
    with D s1 e1 show ?thesis by (auto simp add: Deploy_def)
  next
    case c1: (Inr config)
    obtain r2 t2 where s2: "checkPreTerraformConfigRequirements client config t1 = (r2, t2)"
      by (cases "checkPreTerraformConfigRequirements client config t1")
    have e2: "steps t2 = steps tr"
      using checkPreTerraformConfigRequirements_steps [OF s2] e1 by simp
    show ?thesis
    proof (cases r2)
      case (Inl err)
      with D s1 c1 s2 e2 show ?thesis by (auto simp add: Deploy_def)
    next
      case c2: (Inr config1)
      obtain r3 t3 where s3: "applyTerraform client config1 t2 = (r3, t3)"
        by (cases "applyTerraform client config1 t2")
      have e3: "steps t3 = steps tr" using applyTerraform_steps [OF s3] e2 by simp
      show ?thesis
      proof (cases r3)
        case (Inl err)
        with D s1 c1 s2 c2 s3 e3 show ?thesis by (auto simp add: Deploy_def)
      next
        case c3: (Inr metadata)
        obtain r4 t4 where s4:
          "checkPreDeployConfigRequiments client
             (args_Domain (deployArgs client) \<noteq> conf_Domain config) config1 metadata t3 = (r4, t4)"
          by (cases "checkPreDeployConfigRequiments client
             (args_Domain (deployArgs client) \<noteq> conf_Domain config) config1 metadata t3")
        have e4: "steps t4 = steps tr"
          using checkPreDeployConfigRequiments_steps [OF s4] e3 by simp
        show ?thesis
        proof (cases r4)
          case (Inl err)
          with D s1 c1 s2 c2 s3 c3 s4 e4 show ?thesis by (auto simp add: Deploy_def)
        next
          case c4: (Inr config2)
          let ?creds = "\<lparr>Target = Deployment config2, API = ''https://'' @ conf_Domain config2,
                         Username = ConcourseUsername config2,
                         Password = ConcoursePassword config2\<rparr>"
          let ?t5 = "t4 @ [EvFlyClientFactory ?creds]"
          show ?thesis
          proof (cases "env_flyClientFactory client t4 ?creds")
            case (Some err)
            with D s1 c1 s2 c2 s3 c3 s4 c4 e4 show ?thesis
              by (auto simp add: Deploy_def flyClientFactory_def)
          next
            case None
            obtain r6 t6 where s6:
              "(if SelfUpdate (deployArgs client)
                then updateBoshAndPipeline client config2 metadata ?t5
                else deployBoshAndPipeline client config2 metadata ?t5) = (r6, t6)"
              by (cases "if SelfUpdate (deployArgs client)
                then updateBoshAndPipeline client config2 metadata ?t5
                else deployBoshAndPipeline client config2 metadata ?t5")
            have e5: "steps ?t5 = steps tr" using e4 by simp
            have "steps tr' = steps t6 \<and> (r = None \<longrightarrow> (\<exists>c. r6 = Inr c))"
              using D s1 c1 s2 c2 s3 c3 s4 c4 None s6
              by (cases r6)
                 (auto simp add: Deploy_def flyClientFactory_def defer_Cleanup_def
                    configClient_Update_def)
            with s6 e5 show ?thesis by blast
          qed
        qed
      qed
    qed
  qed
qed

lemma deployBosh_steps_ok:
  assumes "\<forall>t n e. env_HasAsset client t n \<noteq> Inl e" and "\<forall>t n e. env_LoadAsset client t n \<noteq> Inl e"
    and "deployBosh client config metadata detach tr = (Inr c, tr1)"
  shows "steps tr1 = steps tr @ [DeployCall detach]"
  using assms
  by (auto simp add: deployBosh_def loadDirectorState_def loadDirectorCreds_def
        buildBoshClient_def boshClient_Deploy_def configClient_HasAsset_def
        configClient_LoadAsset_def configClient_StoreAsset_def defer_Cleanup_def Let_def
      split: sum.splits option.splits if_splits prod.splits)

lemma updateBoshAndPipeline_steps_ok:
  assumes "\<forall>t n e. env_HasAsset client t n \<noteq> Inl e" and "\<forall>t n e. env_LoadAsset client t n \<noteq> Inl e"
    and "updateBoshAndPipeline client config metadata tr = (Inr c, tr1)"
  shows "steps tr1 = steps tr @ [PipelineSet True, DeployCall True]"
  using assms(3) deployBosh_steps_ok [OF assms(1,2)]
  by (auto simp add: updateBoshAndPipeline_def flyClient_CanConnect_def
        flyClient_SetDefaultPipeline_def stdout_Write_def
      split: sum.splits option.splits if_splits prod.splits)

lemma deployBoshAndPipeline_steps_ok:
  assumes "\<forall>t n e. env_HasAsset client t n \<noteq> Inl e" and "\<forall>t n e. env_LoadAsset client t n \<noteq> Inl e"
    and "deployBoshAndPipeline client config metadata tr = (Inr c, tr1)"
  shows "steps tr1 = steps tr @ [DeployCall False, PipelineSet False]"
  using assms(3) deployBosh_steps_ok [OF assms(1,2)]
  by (auto simp add: deployBoshAndPipeline_def writeDeploySuccessMessage_def
        flyClient_SetDefaultPipeline_def stdout_Write_def
      split: sum.splits option.splits if_splits prod.splits)

lemma Deploy_order:
  "\<exists>new. steps (snd (Deploy client tr)) = steps tr @ new
     \<and> (if SelfUpdate (deployArgs client)
        then prefix new [PipelineSet True, DeployCall True]
        else subseq new [DeployCall False, PipelineSet False])
     \<and> (fst (Deploy client tr) = None \<longrightarrow> PipelineSet (SelfUpdate (deployArgs client)) \<in> set new)"
proof -
  obtain r tr' where D: "Deploy client tr = (r, tr')" by (cases "Deploy client tr")
  from Deploy_cases [OF D] show ?thesis
  proof (elim disjE exE conjE)
    fix e assume "steps tr' = steps tr" "r = Some e"
    with D show ?thesis by simp
  next
    fix config metadata t5 r6 t6
    assume s: "(if SelfUpdate (deployArgs client)
          then updateBoshAndPipeline client config metadata t5
          else deployBoshAndPipeline client config metadata t5) = (r6, t6)"
      and e: "steps t5 = steps tr" "steps tr' = steps t6"
      and ok: "r = None \<longrightarrow> (\<exists>c. r6 = Inr c)"
    show ?thesis
    proof (cases "SelfUpdate (deployArgs client)")
      case True
      with s have "updateBoshAndPipeline client config metadata t5 = (r6, t6)" by simp
      from updateBoshAndPipeline_steps [OF this] D e ok True show ?thesis
        by auto
    next
      case False
      with s have "deployBoshAndPipeline client config metadata t5 = (r6, t6)" by simp
      from deployBoshAndPipeline_steps [OF this] D e ok False show ?thesis
        by auto
    qed
  qed
qed

lemma Deploy_complete:
  assumes "\<forall>t n e. env_HasAsset client t n \<noteq> Inl e" and "\<forall>t n e. env_LoadAsset client t n \<noteq> Inl e"
    and "fst (Deploy client tr) = None"
  shows "steps (snd (Deploy client tr)) = steps tr @
           (if SelfUpdate (deployArgs client) then [PipelineSet True, DeployCall True]
            else [DeployCall False, PipelineSet False])"
proof -
  obtain r tr' where D: "Deploy client tr = (r, tr')" by (cases "Deploy client tr")
  with assms(3) have r: "r = None" by simp
  from Deploy_cases [OF D] r obtain config metadata t5 c t6 where
    s: "(if SelfUpdate (deployArgs client)
          then updateBoshAndPipeline client config metadata t5
          else deployBoshAndPipeline client config metadata t5) = (Inr c, t6)"
      and e: "steps t5 = steps tr" "steps tr' = steps t6"
    by auto
  show ?thesis
  proof (cases "SelfUpdate (deployArgs client)")
    case True
    with s have "updateBoshAndPipeline client config metadata t5 = (Inr c, t6)" by simp
    from updateBoshAndPipeline_steps_ok [OF assms(1,2) this] D e True show ?thesis by simp
  next
    case False
    with s have "deployBoshAndPipeline client config metadata t5 = (Inr c, t6)" by simp
    from deployBoshAndPipeline_steps_ok [OF assms(1,2) this] D e False show ?thesis by simp
  qed
qed

lemma updateBoshAndPipeline_unreachable:
  assumes "env_CanConnect client tr \<noteq> Inr True"
  shows "updateBoshAndPipeline client config metadata tr =
           (Inl (case env_CanConnect client tr of
                   Inl err \<Rightarrow> err
                 | Inr b \<Rightarrow> Error ''In detach mode but it seems that concourse is not currently running''),
            tr @ [EvCanConnect])"
  using assms
  by (auto simp add: updateBoshAndPipeline_def flyClient_CanConnect_def split: sum.splits)

lemma Deploy_unreachable:
  assumes "SelfUpdate (deployArgs client)" and "\<forall>t. env_CanConnect client t \<noteq> Inr True"
  shows "(\<exists>e. fst (Deploy client tr) = Some e) \<and> steps (snd (Deploy client tr)) = steps tr"
proof -
  obtain r tr' where D: "Deploy client tr = (r, tr')" by (cases "Deploy client tr")
  from Deploy_cases [OF D] show ?thesis
  proof (elim disjE exE conjE)
    fix e assume "steps tr' = steps tr" "r = Some e"
    with D show ?thesis by simp
  next
    fix config metadata t5 r6 t6
    assume s: "(if SelfUpdate (deployArgs client)
          then updateBoshAndPipeline client config metadata t5
          else deployBoshAndPipeline client config metadata t5) = (r6, t6)"
      and e: "steps t5 = steps tr" "steps tr' = steps t6"
      and ok: "r = None \<longrightarrow> (\<exists>c. r6 = Inr c)"
    from assms(2) have "env_CanConnect client t5 \<noteq> Inr True" by simp
    from updateBoshAndPipeline_unreachable [OF this, of config metadata] s assms(1)
    have "(\<exists>e. r6 = Inl e) \<and> t6 = t5 @ [EvCanConnect]" by auto
    with D e ok show ?thesis by (cases r) auto
  qed
qed

lemma demo_run1_result:
  "fst (Deploy demo_client []) = None
   \<and> steps (snd (Deploy demo_client [])) = [DeployCall False, PipelineSet False]
   \<and> last_Update (snd (Deploy demo_client [])) = Some demo_stored"
  by (simp add: fun_defs call_defs demo_defs demo_stored_def Let_def)

lemma demo_selfupdate_result:
  "fst (Deploy demo_selfupdate_client []) = None
   \<and> steps (snd (Deploy demo_selfupdate_client [])) = [PipelineSet True, DeployCall True]"
  by (simp add: fun_defs call_defs demo_defs2 Let_def)

lemma demo_unreachable_result:
  "fst (Deploy demo_unreachable_client [])
     = Some (Error ''In detach mode but it seems that concourse is not currently running'')
   \<and> steps (snd (Deploy demo_unreachable_client [])) = []"
  by (simp add: fun_defs call_defs demo_defs2 Let_def)

lemma demo_load_error_result:
  "fst (Deploy demo_load_error_client []) = None
   \<and> steps (snd (Deploy demo_load_error_client [])) = [PipelineSet False]"
  by (simp add: fun_defs call_defs demo_defs2 Let_def)

lemma demo_selfupdate_load_error_result:
  "fst (Deploy demo_selfupdate_load_error_client []) = None
   \<and> steps (snd (Deploy demo_selfupdate_load_error_client [])) = [PipelineSet True]"
  by (simp add: fun_defs call_defs demo_defs2 Let_def)

lemma last_Update_append:
  "last_Update (xs @ ys) = (case last_Update ys of Some c \<Rightarrow> Some c | None \<Rightarrow> last_Update xs)"
  by (induction xs) (simp_all split: option.splits)

lemma demo_run2_result:
  assumes "last_Update tr1 = Some demo_stored"
  shows "fst (Deploy demo_client tr1) = None
   \<and> filter is_CertGenerator (drop (length tr1) (snd (Deploy demo_client tr1)))
       = [EvCertGenerator ''concourse-up-ci'' [''192.0.2.10'']]
   \<and> last_Update (snd (Deploy demo_client tr1)) = Some demo_stored"
  using assms
  by (simp add: fun_defs call_defs demo_defs demo_stored_def Let_def is_CertGenerator_def
        time_Hour_def last_Update_append)

text \<open>
  What holds of the order in every run. The pipeline-set calls and deploy calls that a
  run of \<open>Deploy\<close> adds to the trace are, in self-update mode, a prefix of: pipeline set allowing a version discrepancy,
  then deploy call with detach true; in fresh mode they are a subsequence of: deploy call
  with detach false, then pipeline set not allowing a discrepancy. So each call is made at
  most once, with the flag of the mode, and never in the other order. A run that returns
  no error has set the pipeline; and when no query or load of a prior blob fails, a run
  that returns no error has made both calls, in the order of the mode.
\<close>

lemma Deploy_steps_by_mode:
  "(\<exists>new. steps (snd (Deploy client tr)) = steps tr @ new
      \<and> (if SelfUpdate (deployArgs client)
         then prefix new [PipelineSet True, DeployCall True]
         else subseq new [DeployCall False, PipelineSet False])
      \<and> (fst (Deploy client tr) = None
           \<longrightarrow> PipelineSet (SelfUpdate (deployArgs client)) \<in> set new))
   \<and> ((\<forall>t n e. env_HasAsset client t n \<noteq> Inl e) \<and> (\<forall>t n e. env_LoadAsset client t n \<noteq> Inl e)
        \<and> fst (Deploy client tr) = None
       \<longrightarrow> steps (snd (Deploy client tr)) = steps tr @
             (if SelfUpdate (deployArgs client) then [PipelineSet True, DeployCall True]
              else [DeployCall False, PipelineSet False]))"
  using Deploy_order [of client tr] Deploy_complete [of client tr] by blast

lemma Deploy_steps_by_mode_example:
  "fst (Deploy demo_client []) = None
   \<and> steps (snd (Deploy demo_client [])) = [DeployCall False, PipelineSet False]
   \<and> fst (Deploy demo_selfupdate_client []) = None
   \<and> steps (snd (Deploy demo_selfupdate_client [])) = [PipelineSet True, DeployCall True]"
proof -
  have h: "\<forall>t n e. env_HasAsset demo_client t n \<noteq> Inl e"
    "\<forall>t n e. env_LoadAsset demo_client t n \<noteq> Inl e"
    "\<forall>t n e. env_HasAsset demo_selfupdate_client t n \<noteq> Inl e"
    "\<forall>t n e. env_LoadAsset demo_selfupdate_client t n \<noteq> Inl e"
    by (simp_all add: demo_client_def demo_selfupdate_client_def)
  have m: "\<not> SelfUpdate (deployArgs demo_client)" "SelfUpdate (deployArgs demo_selfupdate_client)"
    by (simp_all add: demo_client_def demo_selfupdate_client_def demo_args_def)
  from Deploy_steps_by_mode [of demo_client "[]"]
       Deploy_steps_by_mode [of demo_selfupdate_client "[]"]
       h m demo_run1_result demo_selfupdate_result
  show ?thesis by simp
qed

text \<open>
  C4, evaluated where it fails. In fresh mode, with a store whose asset query fails,
  \<open>deployBosh\<close> returns no error without calling the deployer, so
  \<open>deployBoshAndPipeline\<close> goes on to set the pipeline and to print the success message:
  the run of \<open>Deploy\<close> returns no error and its only step is the pipeline-set call, with
  no deploy call before it. In self-update mode the same store gives a run without error
  whose only step is the pipeline-set call, with no detached deploy call after it.
\<close>

theorem C4_pipeline_set_without_deploy_call:
  "\<not> SelfUpdate (deployArgs demo_load_error_client)
   \<and> deployBoshAndPipeline demo_load_error_client demo_stored demo_metadata []
       = (Inr demo_stored,
          [EvBuildBoshClient demo_stored demo_metadata, EvHasAsset ''director-state.json'',
           EvBoshCleanup, EvSetDefaultPipeline demo_args demo_stored False,
           EvStdout (deployMsg demo_stored)])
   \<and> fst (Deploy demo_load_error_client []) = None
   \<and> steps (snd (Deploy demo_load_error_client [])) = [PipelineSet False]
   \<and> SelfUpdate (deployArgs demo_selfupdate_load_error_client)
   \<and> fst (Deploy demo_selfupdate_load_error_client []) = None
   \<and> steps (snd (Deploy demo_selfupdate_load_error_client [])) = [PipelineSet True]"
  using demo_load_error_result demo_selfupdate_load_error_result
  by (simp add: deployBoshAndPipeline_def deployBosh_def loadDirectorState_def
        writeDeploySuccessMessage_def call_defs demo_load_error_client_def
        demo_selfupdate_load_error_client_def demo_selfupdate_client_def demo_client_def
        demo_args_def)

text \<open>
  C9. In self-update mode, when the connectivity probe does not report the service
  reachable (it answers false, or fails), \<open>updateBoshAndPipeline\<close> returns an error right
  after the probe: the probe's own error, or the message that concourse is not running.
  The whole run of \<open>Deploy\<close> then returns an error and adds neither a pipeline-set call
  nor a deploy call to the trace.
\<close>

theorem C9_unreachable_service_fails_before_deploy:
  assumes "SelfUpdate (deployArgs client)" and "\<forall>t. env_CanConnect client t \<noteq> Inr True"
  shows "updateBoshAndPipeline client config metadata tr =
           (Inl (case env_CanConnect client tr of
                   Inl err \<Rightarrow> err
                 | Inr b \<Rightarrow> Error ''In detach mode but it seems that concourse is not currently running''),
            tr @ [EvCanConnect])
         \<and> (\<exists>e. fst (Deploy client tr) = Some e)
         \<and> steps (snd (Deploy client tr)) = steps tr"
  using assms updateBoshAndPipeline_unreachable [of client tr config metadata]
    Deploy_unreachable [of client tr]
  by simp

theorem C9_witness:
  "SelfUpdate (deployArgs demo_unreachable_client)
   \<and> env_CanConnect demo_unreachable_client [] = Inr False
   \<and> updateBoshAndPipeline demo_unreachable_client demo_stored demo_metadata []
       = (Inl (Error ''In detach mode but it seems that concourse is not currently running''),
          [EvCanConnect])
   \<and> fst (Deploy demo_unreachable_client [])
       = Some (Error ''In detach mode but it seems that concourse is not currently running'')
   \<and> steps (snd (Deploy demo_unreachable_client [])) = []"
proof -
  have a: "SelfUpdate (deployArgs demo_unreachable_client)"
    by (simp add: demo_defs2)
  have b: "\<forall>t. env_CanConnect demo_unreachable_client t \<noteq> Inr True"
    by (simp add: demo_defs2)
  have c: "env_CanConnect demo_unreachable_client [] = Inr False"
    by (simp add: demo_defs2)
  from C9_unreachable_service_fails_before_deploy [OF a b, of demo_stored demo_metadata "[]"]
       a c demo_unreachable_result
  show ?thesis by simp
qed

subsection \<open>A failed load of the prior deploy state\<close>

text \<open>
  C2, evaluated where it fails. With a store whose asset query fails, \<open>loadDirectorState\<close>
  returns the error, and \<open>deployBosh\<close> then returns no error at once: its trace holds the
  construction of the BOSH client, the failed query and the cleanup, and no deploy call
  and no store of a blob. The whole fresh-mode run returns no error and sets the pipeline
  without a deploy call.
\<close>

theorem C2_load_error_skips_deploy:
  "loadDirectorState demo_load_error_client [EvBuildBoshClient demo_stored demo_metadata]
     = (Inl (Error ''storage unavailable''),
        [EvBuildBoshClient demo_stored demo_metadata, EvHasAsset ''director-state.json''])
   \<and> deployBosh demo_load_error_client demo_stored demo_metadata False []
     = (Inr demo_stored,
        [EvBuildBoshClient demo_stored demo_metadata, EvHasAsset ''director-state.json'',
         EvBoshCleanup])
   \<and> fst (Deploy demo_load_error_client []) = None
   \<and> steps (snd (Deploy demo_load_error_client [])) = [PipelineSet False]"
  using demo_load_error_result
  by (simp add: deployBosh_def loadDirectorState_def call_defs demo_load_error_client_def
        demo_client_def)

subsection \<open>A second run with the same arguments\<close>

text \<open>
  C8, evaluated where it fails. The deploy arguments name no domain. The first run
  succeeds and persists a configuration whose domain is the public IP of the ATC and
  whose application certificate has more than 28 days left. The second run, with the same
  arguments and that stored configuration, succeeds too, and calls the certificate
  generator once, for the application certificate of that IP: the empty domain argument
  differs from the stored domain, so the run counts the domain as changed. The director
  certificate is not generated again (that call has two subjects), and the configuration
  the second run persists has the sizing of the arguments; it equals the first run's,
  since this generator returns the same bundle at each call.
\<close>

theorem C8_second_run_regenerates_application_certs:
  "fst (Deploy demo_client []) = None
   \<and> last_Update (snd (Deploy demo_client [])) = Some demo_stored
   \<and> args_Domain (deployArgs demo_client) = []
   \<and> conf_Domain demo_stored = ''192.0.2.10''
   \<and> timeTillExpiry demo_client (snd (Deploy demo_client [])) (ConcourseCert demo_stored)
       > 28 * 24 * time_Hour
   \<and> fst (Deploy demo_client (snd (Deploy demo_client []))) = None
   \<and> filter is_CertGenerator
        (drop (length (snd (Deploy demo_client [])))
           (snd (Deploy demo_client (snd (Deploy demo_client [])))))
       = [EvCertGenerator ''concourse-up-ci'' [''192.0.2.10'']]
   \<and> last_Update (snd (Deploy demo_client (snd (Deploy demo_client [])))) = Some demo_stored
   \<and> ConcourseWorkerCount demo_stored = WorkerCount (deployArgs demo_client)
   \<and> ConcourseWorkerSize demo_stored = WorkerSize (deployArgs demo_client)
   \<and> ConcourseWebSize demo_stored = WebSize (deployArgs demo_client)"
proof -
  have "last_Update (snd (Deploy demo_client [])) = Some demo_stored"
    using demo_run1_result by simp
  from demo_run2_result [OF this] demo_run1_result show ?thesis
    by (simp add: demo_client_def demo_args_def demo_stored_def timeTillExpiry_def time_Hour_def)
qed

end
